theory Spec2Isabelle
  imports Complex_Main
begin

section \<open>check_pve2.py: a shallow embedding of the evaluation logic\<close>

text \<open>
  The plugin queries one endpoint of the Proxmox VE API, grades the decoded payload and
  prints Nagios/Icinga style lines before leaving with the status as exit code. The
  development below follows \<^verbatim>\<open>src/check_pve2.py\<close> function by function.

  Modelling decisions:
  \<^item> Python \<^verbatim>\<open>str\<close> is \<^typ>\<open>string\<close> (the texts involved are ASCII), Python \<^verbatim>\<open>int\<close> is
    \<^typ>\<open>int\<close>.
  \<^item> Python \<^verbatim>\<open>float\<close> is \<^typ>\<open>real\<close>: every float operation is taken exactly, the
    rounding of IEEE doubles to 53 bits is not part of the model, there is no NaN and no
    infinity. \<^verbatim>\<open>round(x, n)\<close> rounds the exact value half to even at \<open>n\<close> decimals.
  \<^item> \<^verbatim>\<open>sys.exit\<close> ends the run: a function that may call \<^verbatim>\<open>output\<close> (here \<open>output_msg\<close>) returns the
    outcome of the run when it did, so nothing after it is evaluated.
  \<^item> \<^verbatim>\<open>self.result_list\<close> is passed in and returned. Where the source replaces it by
    \<^verbatim>\<open>set(self.result_list)\<close> the model keeps a duplicate-free list; the iteration
    order of a Python set is not determined, so statements about such a run speak of the set
    of printed lines or of a single line.
  \<^item> The decoded JSON payloads are typed records with the fields the evaluators read.
\<close>

subsection \<open>Strings\<close>

text \<open>\<^verbatim>\<open>sub in s\<close> on Python strings: \<open>sub\<close> occurs in \<open>s\<close> as a contiguous substring.\<close>

primrec str_in :: "string \<Rightarrow> string \<Rightarrow> bool" where
  "str_in sub [] = (sub = [])"
| "str_in sub (ch # rest) = (take (length sub) (ch # rest) = sub \<or> str_in sub rest)"

text \<open>
  \<^verbatim>\<open>re.search(pat, s)\<close> for the patterns of the source (\<^verbatim>\<open>"WARNING -"\<close>,
  \<^verbatim>\<open>"CRITICAL -"\<close>, \<^verbatim>\<open>"CRITICAL"\<close>, \<^verbatim>\<open>"WARNING"\<close>, \<^verbatim>\<open>"OK -"\<close>): none of them has a
  regular-expression metacharacter, so the search succeeds when the pattern occurs literally.
\<close>

definition re_search :: "string \<Rightarrow> string \<Rightarrow> bool" where
  "re_search pat s = str_in pat s"

text \<open>\<^verbatim>\<open>any(sub in x for x in result_list)\<close>\<close>

definition any_in :: "string \<Rightarrow> string list \<Rightarrow> bool" where
  "any_in sub result_list = list_ex (str_in sub) result_list"

text \<open>\<^verbatim>\<open>str.strip()\<close>: the ASCII whitespace characters are dropped at both ends.\<close>

definition is_space :: "char \<Rightarrow> bool" where
  "is_space ch = (ch \<in> set [CHR 0x09, CHR 0x0A, CHR 0x0B, CHR 0x0C, CHR 0x0D,
                             CHR 0x1C, CHR 0x1D, CHR 0x1E, CHR 0x1F, CHR 0x20])"

definition strip :: "string \<Rightarrow> string" where
  "strip s = rev (dropWhile is_space (rev (dropWhile is_space s)))"

subsection \<open>Numbers and their text\<close>

definition digit_char :: "nat \<Rightarrow> char" where
  "digit_char d = ''0123456789'' ! d"

text \<open>\<^verbatim>\<open>str(n)\<close> for an integer: the decimal digits, most significant first.\<close>

fun str_nat :: "nat \<Rightarrow> string" where
  "str_nat n = (if n < 10 then [digit_char n] else str_nat (n div 10) @ [digit_char (n mod 10)])"

declare str_nat.simps [simp del]

definition str_int :: "int \<Rightarrow> string" where
  "str_int i = (if i < 0 then CHR ''-'' # str_nat (nat (- i)) else str_nat (nat i))"

text \<open>\<^verbatim>\<open>round(x, ndigits)\<close> on a float: to the nearest multiple of \<open>10^-ndigits\<close>, ties to even.\<close>

definition round_half_even :: "real \<Rightarrow> int" where
  "round_half_even x =
     (let f = \<lfloor>x\<rfloor>; d = x - of_int f
      in if d < 1 / 2 then f else if 1 / 2 < d then f + 1 else if even f then f else f + 1)"

definition py_round :: "real \<Rightarrow> nat \<Rightarrow> real" where
  "py_round x ndigits = of_int (round_half_even (x * 10 ^ ndigits)) / 10 ^ ndigits"

text \<open>
  \<^verbatim>\<open>str(x)\<close> of a float as an f-string prints it: the shortest decimal that reads back as
  \<open>x\<close>. Every float the modelled code prints is the result of \<^verbatim>\<open>round(_, 1)\<close> or
  \<^verbatim>\<open>round(_, 2)\<close>; for such a value below \<open>10^16\<close> in magnitude that is the integer part, a
  point, and one or two decimals (\<^verbatim>\<open>90.0\<close>, \<^verbatim>\<open>7.45\<close>). The function is meant for those
  values only.
\<close>

definition str_float :: "real \<Rightarrow> string" where
  "str_float x =
     (let h = nat \<lfloor>\<bar>x\<bar> * 100\<rfloor>; ip = h div 100; fr = h mod 100
      in (if x < 0 then ''-'' else '''') @ str_nat ip @ ''.'' @
         (if fr mod 10 = 0 then [digit_char (fr div 10)]
          else [digit_char (fr div 10), digit_char (fr mod 10)]))"

subsection \<open>States, outcomes, options and payloads\<close>

datatype CheckState = OK | WARNING | CRITICAL | UNKNOWN

primrec name :: "CheckState \<Rightarrow> string" where
  "name OK = ''OK''"
| "name WARNING = ''WARNING''"
| "name CRITICAL = ''CRITICAL''"
| "name UNKNOWN = ''UNKNOWN''"

text \<open>The member's \<^verbatim>\<open>.value\<close>, the exit status.\<close>

primrec state_value :: "CheckState \<Rightarrow> nat" where
  "state_value OK = 0"
| "state_value WARNING = 1"
| "state_value CRITICAL = 2"
| "state_value UNKNOWN = 3"

datatype py_error = TypeError | KeyError | AttributeError

text \<open>
  How a run ends: \<open>Exit lines status\<close> after printing \<open>lines\<close> on standard output;
  \<open>ParserError msg\<close> for \<^verbatim>\<open>parser.error(msg)\<close> (usage and message on standard error,
  status 2); \<open>Raise e\<close> for an uncaught exception; \<open>Unmodelled\<close> for the four subcommands
  (ceph, ceph_io, cluster, pveversion) whose evaluators are not part of this development.
\<close>

datatype outcome =
    Exit "string list" nat
  | ParserError string
  | Raise py_error
  | Unmodelled

text \<open>\<^verbatim>\<open>output(state, message)\<close>: print one line, leave with the state's value as exit status.\<close>

definition output_msg :: "CheckState \<Rightarrow> string \<Rightarrow> outcome" where
  "output_msg state message = Exit [name state @ '' - '' @ message] (state_value state)"

text \<open>The argparse namespace \<^verbatim>\<open>self.options\<close>, with the fields the modelled code reads.\<close>

record options =
  api_host :: string
  api_port :: int
  api_user :: string
  api_password :: "string option"
  api_token :: "string option"
  subcommand :: string
  nodename :: string
  ignore_disks :: "string list"
  include_disks :: "string list"
  threshold_warning :: "int option"
  threshold_critical :: "int option"

record usage =
  usage_used :: int
  usage_total :: int

text \<open>\<^verbatim>\<open>nodes/{node}/status\<close>: \<^verbatim>\<open>{"cpu": .., "memory": {..}, "swap": {..}}\<close>\<close>

record node_status =
  ns_cpu :: real
  ns_memory :: usage
  ns_swap :: usage

text \<open>The wearout of a disk is an integer percentage or a text such as \<^verbatim>\<open>"N/A"\<close>.\<close>

datatype wearout = WearoutInt int | WearoutStr string

record disk =
  disk_vendor :: string
  disk_model :: string
  disk_type :: string
  disk_devpath :: string
  disk_health :: string
  disk_wearout :: wearout

record service =
  service_name :: string
  service_desc :: string
  service_unit_state :: string
  service_state :: string
  service_active_state :: string

record storage =
  storage_name :: string
  storage_enabled :: int
  storage_active :: int
  storage_type :: string
  storage_used_byte :: int
  storage_total_byte :: int

datatype payload =
    NodeStatus node_status
  | DisksList "disk list"
  | ServicesList "service list"
  | StorageList "storage list"
  | Ticket string

subsection \<open>Unit normalizer\<close>

text \<open>
  \<^verbatim>\<open>check_UOM\<close>: three \<^verbatim>\<open>if\<close> statements in a row, each reading the digit count taken at
  entry and the current value of \<^verbatim>\<open>mynumber\<close>.
\<close>

definition check_UOM :: "int \<Rightarrow> real \<times> string" where
  "check_UOM mynumber =
     (let mynumber_lenght = length (str_int mynumber);
          s0 = (of_int mynumber, ''GB'');
          s1 = (if 13 \<le> mynumber_lenght then (py_round (fst s0 / 1024 ^ 4) 2, ''TB'') else s0);
          s2 = (if 10 \<le> mynumber_lenght \<and> mynumber_lenght \<le> 12
                then (py_round (fst s1 / 1024 ^ 3) 2, ''GB'') else s1);
          s3 = (if mynumber_lenght < 10 then (py_round (fst s2 / 1024 ^ 2) 2, ''MB'') else s2)
      in s3)"

definition get_common_unit :: "int \<Rightarrow> int \<Rightarrow> real \<times> real \<times> string" where
  "get_common_unit used_number total_number =
     (let total_number_lenght = length (str_int total_number);
          s0 = (of_int used_number, of_int total_number, ''GB'');
          s1 = (if 13 \<le> total_number_lenght
                then (py_round (fst s0 / 1024 ^ 4) 2, py_round (fst (snd s0) / 1024 ^ 4) 2, ''TB'')
                else s0);
          s2 = (if 10 \<le> total_number_lenght \<and> total_number_lenght \<le> 12
                then (py_round (fst s1 / 1024 ^ 3) 2, py_round (fst (snd s1) / 1024 ^ 3) 2, ''GB'')
                else s1);
          s3 = (if total_number_lenght < 10
                then (py_round (fst s2 / 1024 ^ 2) 2, py_round (fst (snd s2) / 1024 ^ 2) 2, ''MB'')
                else s2)
      in s3)"

subsection \<open>Threshold validation and argument parsing\<close>

text \<open>
  \<^verbatim>\<open>check_thresholds_scale\<close> returns a truth value in two cases and falls off its end
  (Python's \<^verbatim>\<open>None\<close>) otherwise. It compares the two thresholds, which \<^verbatim>\<open>parse_args\<close> has
  found present before it calls the function for one of the five threshold subcommands; a
  missing threshold in the comparison is a \<^verbatim>\<open>TypeError\<close>.
\<close>

definition check_thresholds_scale :: "options \<Rightarrow> string \<Rightarrow> py_error + bool option" where
  "check_thresholds_scale opts scale =
     (if (subcommand opts = ''cpu'' \<or> subcommand opts = ''memory'' \<or>
          subcommand opts = ''storage'' \<or> subcommand opts = ''swap'') \<and> scale = ''increase''
      then (case (threshold_warning opts, threshold_critical opts) of
              (Some w, Some c) \<Rightarrow> Inr (Some (w < c))
            | _ \<Rightarrow> Inl TypeError)
      else if subcommand opts = ''disks_health'' \<and> scale = ''decrease''
      then (case (threshold_warning opts, threshold_critical opts) of
              (Some w, Some c) \<Rightarrow> Inr (Some (c < w))
            | _ \<Rightarrow> Inl TypeError)
      else Inr None)"

definition choices :: "string list" where
  "choices = [''ceph'', ''ceph_io'', ''cluster'', ''cpu'', ''disks_health'', ''memory'',
              ''pveversion'', ''services'', ''storage'', ''swap'']"

text \<open>
  The checks \<^verbatim>\<open>parse_args\<close> makes on the parsed namespace: argparse turns down a
  subcommand outside \<open>choices\<close> (its message is shortened here), then the two tests the
  source writes out. A rejection is a \<open>ParserError\<close>; \<open>None\<close> means the namespace was
  accepted.
\<close>

definition parse_args :: "options \<Rightarrow> outcome option" where
  "parse_args opts =
     (if subcommand opts \<notin> set choices
      then Some (ParserError (''argument --subcommand: invalid choice''))
      else if (subcommand opts = ''cpu'' \<or> subcommand opts = ''disks_health'' \<or>
               subcommand opts = ''memory'' \<or> subcommand opts = ''storage'' \<or>
               subcommand opts = ''swap'') \<and>
              (threshold_warning opts = None \<or> threshold_critical opts = None)
      then Some (ParserError (''--warning and --critical arguments are required for '' @
                 [CHR 0x27] @ subcommand opts @ [CHR 0x27] @ '' subcommand!''))
      else (case check_thresholds_scale opts ''increase'' of
              Inl e \<Rightarrow> Some (Raise e)
            | Inr r1 \<Rightarrow>
                if r1 = Some False
                then Some (ParserError (''--warning threshold must be lower then --critical threshold for '' @
                           [CHR 0x27] @ subcommand opts @ [CHR 0x27] @ '' subcommand!''))
                else (case check_thresholds_scale opts ''decrease'' of
                        Inl e \<Rightarrow> Some (Raise e)
                      | Inr r2 \<Rightarrow>
                          if r2 = Some False
                          then Some (ParserError (''--warning threshold must be higher then --critical threshold for '' @
                                     [CHR 0x27] @ subcommand opts @ [CHR 0x27] @ '' subcommand!''))
                          else None)))"

subsection \<open>Evaluators that print one line and leave\<close>

text \<open>
  \<^verbatim>\<open>check_cpu\<close>. The result is \<open>Some\<close> outcome when one of the three branches called
  \<^verbatim>\<open>output\<close>, and \<open>None\<close> when the function returned to \<^verbatim>\<open>main\<close>.
\<close>

definition cpu_message :: "int \<Rightarrow> int \<Rightarrow> real \<Rightarrow> string" where
  "cpu_message warning critical cpu_usage =
     ''CPU usage is '' @ str_float cpu_usage @ '' %. |usage='' @ str_float cpu_usage @
     ''%;'' @ str_int warning @ '';'' @ str_int critical @ '';0;100''"

definition check_cpu :: "int \<Rightarrow> int \<Rightarrow> node_status \<Rightarrow> outcome option" where
  "check_cpu warning critical request_output =
     (let cpu_usage = py_round (ns_cpu request_output * 100) 2;
          message = cpu_message warning critical cpu_usage
      in if of_int critical \<le> cpu_usage then Some (output_msg CRITICAL message)
         else if of_int warning \<le> cpu_usage \<and> cpu_usage \<le> of_int critical
         then Some (output_msg WARNING message)
         else if cpu_usage < of_int warning then Some (output_msg OK message)
         else None)"

text \<open>\<^verbatim>\<open>request_output[subcommand]\<close> on the node status.\<close>

definition usage_of :: "node_status \<Rightarrow> string \<Rightarrow> usage option" where
  "usage_of request_output key =
     (if key = ''memory'' then Some (ns_memory request_output)
      else if key = ''swap'' then Some (ns_swap request_output)
      else None)"

text \<open>
  \<^verbatim>\<open>check_memory\<close>, also run for swap. The percentage is computed from the two sizes in
  GB after each was rounded to one decimal.
\<close>

definition memory_percent :: "int \<Rightarrow> int \<Rightarrow> real" where
  "memory_percent used_byte total_byte =
     (let memory_used = py_round (of_int used_byte / 1024 ^ 3) 1;
          memory_total = py_round (of_int total_byte / 1024 ^ 3) 1
      in if memory_total = 0 then py_round ((memory_used / 1) * 100) 2
         else py_round ((memory_used / memory_total) * 100) 2)"

text \<open>The f-string of \<^verbatim>\<open>check_memory\<close>; its second source line starts with 16 blanks.\<close>

definition memory_message :: "int \<Rightarrow> int \<Rightarrow> string \<Rightarrow> usage \<Rightarrow> string" where
  "memory_message warning critical subcmd u =
     (let memory_used = py_round (of_int (usage_used u) / 1024 ^ 3) 1;
          memory_total = py_round (of_int (usage_total u) / 1024 ^ 3) 1;
          memory_used_warning = py_round ((memory_total / 100) * of_int warning) 2;
          memory_used_critical = py_round ((memory_total / 100) * of_int critical) 2;
          memory_used_percent = memory_percent (usage_used u) (usage_total u)
      in subcmd @ '' usage is '' @ str_float memory_used_percent @ '' % ('' @
         str_float memory_used @ '' GB / '' @ str_float memory_total @ '' GB)!'' @
         ''                '' @
         ''|usage='' @ str_float memory_used @ ''GB;'' @ str_float memory_used_warning @
         '';'' @ str_float memory_used_critical @ '';0;'' @ str_float memory_total)"

definition check_memory :: "int \<Rightarrow> int \<Rightarrow> node_status \<Rightarrow> string \<Rightarrow> outcome option" where
  "check_memory warning critical request_output subcmd =
     (case usage_of request_output subcmd of
        None \<Rightarrow> Some (Raise KeyError)
      | Some u \<Rightarrow>
         (let memory_used_percent = memory_percent (usage_used u) (usage_total u);
              message = memory_message warning critical subcmd u
          in if of_int critical \<le> memory_used_percent then Some (output_msg CRITICAL message)
             else if of_int warning \<le> memory_used_percent \<and>
                     memory_used_percent \<le> of_int critical
             then Some (output_msg WARNING message)
             else if memory_used_percent < of_int warning then Some (output_msg OK message)
             else None))"

definition check_swap :: "int \<Rightarrow> int \<Rightarrow> node_status \<Rightarrow> string \<Rightarrow> outcome option" where
  "check_swap warning critical request_output subcmd =
     check_memory warning critical request_output subcmd"

subsection \<open>Evaluators that build the result list\<close>

text \<open>One pass of the loop body of \<^verbatim>\<open>check_disks_health\<close> over a disk.\<close>

definition disks_health_step :: "int \<Rightarrow> int \<Rightarrow> string list \<Rightarrow> disk \<Rightarrow> string list" where
  "disks_health_step warning critical result_list d =
     (let descr = strip (disk_vendor d) @ '' - '' @ disk_model d @ '' type: '' @ disk_type d @
                  '' on '' @ disk_devpath d;
          appended =
            (if disk_health d \<noteq> ''OK'' \<and> disk_health d \<noteq> ''PASSED'' \<and> disk_health d \<noteq> ''UNKNOWN''
             then result_list @ [''WARNING - '' @ descr @ '' is failed: '' @ disk_health d]
             else case disk_wearout d of
                    WearoutInt wo \<Rightarrow>
                      if wo \<le> warning \<and> wo \<ge> critical
                      then result_list @ [''WARNING - '' @ descr @ '' has low wearout: '' @ str_int wo]
                      else if wo \<le> critical
                      then result_list @ [''CRITICAL - '' @ descr @ '' has low wearout: '' @ str_int wo]
                      else if \<not> any_in ''WARNING'' result_list \<or> \<not> any_in ''CRITICAL'' result_list
                      then result_list @ [''OK - All disks are healthy.'']
                      else result_list
                  | WearoutStr s \<Rightarrow>
                      if \<not> any_in ''WARNING'' result_list \<or> \<not> any_in ''CRITICAL'' result_list
                      then result_list @ [''OK - All disks are healthy.'']
                      else result_list)
      in if any_in ''WARNING'' appended
         then filter (\<lambda>x. re_search ''WARNING -'' x \<and> re_search ''CRITICAL -'' x) appended
         else appended)"

definition check_disks_health :: "int \<Rightarrow> int \<Rightarrow> disk list \<Rightarrow> string list \<Rightarrow> string list" where
  "check_disks_health warning critical request_output result_list =
     remdups (foldl (disks_health_step warning critical) result_list request_output)"

text \<open>The condition under which \<^verbatim>\<open>check_services\<close> reports an element.\<close>

definition service_warns :: "service \<Rightarrow> bool" where
  "service_warns element =
     ((service_state element \<noteq> ''running'' \<or> service_active_state element \<noteq> ''active'') \<and>
      service_unit_state element \<noteq> ''not-found'')"

definition service_warning_line :: "service \<Rightarrow> string" where
  "service_warning_line element =
     ''WARNING - '' @ service_desc element @ '' ('' @ service_name element @ '') is '' @
     service_state element @ ''.''"

definition services_step :: "string list \<Rightarrow> service \<Rightarrow> string list" where
  "services_step result_list element =
     (let appended =
            (if service_warns element then result_list @ [service_warning_line element]
             else if \<not> any_in ''WARNING'' result_list
             then result_list @ [''OK - All services are running.'']
             else result_list)
      in if any_in ''WARNING'' appended then filter (re_search ''WARNING -'') appended
         else appended)"

definition check_services :: "service list \<Rightarrow> string list \<Rightarrow> string list" where
  "check_services request_output result_list = remdups (foldl services_step result_list request_output)"

text \<open>
  \<^verbatim>\<open>check_storage\<close>. The loop computes its variables from one storage entry and then
  calls the nested \<^verbatim>\<open>check_storage_inside\<close>, which reads them; here each is a function of
  the entry. The division by a zero total raises, and the bare \<^verbatim>\<open>except\<close> divides by one.
\<close>

definition storage_used_percent :: "storage \<Rightarrow> real" where
  "storage_used_percent st =
     (if storage_total_byte st = 0
      then py_round ((of_int (storage_used_byte st) / 1) * 100) 2
      else py_round ((of_int (storage_used_byte st) / of_int (storage_total_byte st)) * 100) 2)"

definition storage_message :: "int \<Rightarrow> int \<Rightarrow> storage \<Rightarrow> string" where
  "storage_message warning critical st =
     (let (storage_used, storage_used_unit) = check_UOM (storage_used_byte st);
          (storage_total, storage_total_unit) = check_UOM (storage_total_byte st);
          (storage_common_used, storage_common_total, storage_common_unit) =
             get_common_unit (storage_used_byte st) (storage_total_byte st);
          storage_used_warning = py_round ((storage_total / 100) * of_int warning) 2;
          storage_used_critical = py_round ((storage_total / 100) * of_int critical) 2
      in storage_name st @ '' disk usage (type: '' @ storage_type st @ '') is '' @
         str_float (storage_used_percent st) @ '' % ('' @ str_float storage_used @ '' '' @
         storage_used_unit @ '' / '' @ str_float storage_total @ '' '' @ storage_total_unit @ '').'' @
         ''                        '' @
         ''|'' @ storage_name st @ ''='' @ str_float storage_common_used @ storage_common_unit @
         '';'' @ str_float storage_used_warning @ '';'' @ str_float storage_used_critical @
         '';0;'' @ str_float storage_common_total)"

definition check_storage_inside :: "int \<Rightarrow> int \<Rightarrow> storage \<Rightarrow> string list \<Rightarrow> string list" where
  "check_storage_inside warning critical st result_list =
     (let message = storage_message warning critical st
      in if storage_enabled st = 1
         then (if storage_active st \<noteq> 1
               then result_list @ [''WARNING - '' @ storage_name st @ '' disk is not active!'']
               else if of_int critical \<le> storage_used_percent st
               then result_list @ [''CRITICAL - '' @ message]
               else if of_int warning \<le> storage_used_percent st \<and>
                       storage_used_percent st \<le> of_int critical
               then result_list @ [''WARNING - '' @ message]
               else if storage_used_percent st < of_int warning
               then result_list @ [''OK - '' @ message]
               else result_list)
         else result_list)"

definition storage_step :: "options \<Rightarrow> int \<Rightarrow> int \<Rightarrow> string list \<Rightarrow> storage \<Rightarrow> string list" where
  "storage_step opts warning critical result_list st =
     (if 0 < length (include_disks opts)
      then (if storage_name st \<in> set (include_disks opts)
            then check_storage_inside warning critical st result_list
            else result_list)
      else (if storage_name st \<notin> set (ignore_disks opts)
            then check_storage_inside warning critical st result_list
            else result_list))"

definition check_storage :: "options \<Rightarrow> int \<Rightarrow> int \<Rightarrow> storage list \<Rightarrow> string list \<Rightarrow> string list" where
  "check_storage opts warning critical request_output result_list =
     foldl (storage_step opts warning critical) result_list request_output"

subsection \<open>Aggregation\<close>

text \<open>
  \<^verbatim>\<open>check_exitcodes\<close>: three independent \<^verbatim>\<open>if\<close> statements print, then the exit status
  is chosen.
\<close>

definition check_exitcodes :: "string list \<Rightarrow> outcome" where
  "check_exitcodes result_list =
     Exit ((if any_in ''CRITICAL'' result_list then filter (re_search ''CRITICAL'') result_list else []) @
           (if any_in ''WARNING'' result_list then filter (re_search ''WARNING'') result_list else []) @
           (if any_in ''OK -'' result_list then filter (re_search ''OK -'') result_list else []))
          (if any_in ''CRITICAL'' result_list then 2
           else if any_in ''WARNING'' result_list then 1
           else 0)"

subsection \<open>Transport and the run\<close>

datatype http_method = GET | POST

text \<open>What one HTTP exchange can give: one of the three caught exceptions, or a response
  with its status code and the decoded \<^verbatim>\<open>data\<close> member.\<close>

datatype response = ConnectTimeout | SSLError | ConnectionError | HTTP nat payload

definition API_URL :: "string \<Rightarrow> int \<Rightarrow> string \<Rightarrow> string" where
  "API_URL hostname port command =
     ''https://'' @ hostname @ '':'' @ str_int port @ ''/api2/json/'' @ command"

definition get_url :: "options \<Rightarrow> string \<Rightarrow> string" where
  "get_url opts apiurl =
     (if apiurl = ''cpu'' \<or> apiurl = ''memory'' \<or> apiurl = ''pveversion'' \<or> apiurl = ''swap''
      then API_URL (api_host opts) (api_port opts) (''nodes/'' @ nodename opts @ ''/status'')
      else if apiurl = ''disks_health''
      then API_URL (api_host opts) (api_port opts) (''nodes/'' @ nodename opts @ ''/disks/list'')
      else if apiurl = ''ceph''
      then API_URL (api_host opts) (api_port opts) ''cluster/ceph/status''
      else if apiurl = ''ceph_io''
      then API_URL (api_host opts) (api_port opts) (''nodes/'' @ nodename opts @ ''/ceph/status'')
      else if apiurl = ''cluster''
      then API_URL (api_host opts) (api_port opts) ''cluster/status''
      else if apiurl = ''storage''
      then API_URL (api_host opts) (api_port opts) (''nodes/'' @ nodename opts @ ''/storage'')
      else if apiurl = ''services''
      then API_URL (api_host opts) (api_port opts) (''nodes/'' @ nodename opts @ ''/services'')
      else API_URL (api_host opts) (api_port opts) apiurl)"

text \<open>
  \<^verbatim>\<open>request\<close>: the server is a function \<open>net\<close> from method and URL to what the exchange
  gives. \<open>Inl\<close> is the outcome of a run that \<^verbatim>\<open>output\<close> ended, \<open>Inr\<close> the decoded data.
\<close>

definition request :: "(http_method \<Rightarrow> string \<Rightarrow> response) \<Rightarrow> string \<Rightarrow> http_method \<Rightarrow> outcome + payload" where
  "request net url method =
     (case net method url of
        ConnectTimeout \<Rightarrow> Inl (output_msg UNKNOWN ''Could not connect to PVE API: Connection timeout'')
      | SSLError \<Rightarrow> Inl (output_msg UNKNOWN ''Could not connect to PVE API: Certificate validation failed'')
      | ConnectionError \<Rightarrow> Inl (output_msg UNKNOWN ''Could not connect to PVE API: Failed to resolve hostname'')
      | HTTP status_code data \<Rightarrow>
          if status_code < 400 then Inr data
          else Inl (output_msg UNKNOWN (''Could not fetch data from API: '' @
                 (if status_code = 401
                  then ''Could not connection to PVE API: invalid username or password''
                  else if status_code = 403
                  then ''Access denied. Please check if API user has sufficient permissions / the role has been assigned.''
                  else ''HTTP error code was '' @ str_nat status_code))))"

text \<open>
  \<^verbatim>\<open>main\<close> after the request: the evaluator named by the subcommand, then
  \<^verbatim>\<open>check_exitcodes\<close> on the result list unless the evaluator ended the run.
  \<^verbatim>\<open>parse_args\<close> has made sure that the five threshold subcommands have both thresholds;
  without them the first use of a threshold is a \<^verbatim>\<open>TypeError\<close>.
\<close>

definition finish :: "outcome option \<Rightarrow> string list \<Rightarrow> outcome" where
  "finish ended result_list = (case ended of Some out \<Rightarrow> out | None \<Rightarrow> check_exitcodes result_list)"

definition main :: "options \<Rightarrow> payload \<Rightarrow> outcome" where
  "main opts request_output =
     (let sub = subcommand opts in
      if sub = ''services''
      then (case request_output of
              ServicesList l \<Rightarrow> check_exitcodes (check_services l [])
            | _ \<Rightarrow> Raise TypeError)
      else if sub = ''cpu'' \<or> sub = ''memory'' \<or> sub = ''swap'' \<or> sub = ''disks_health'' \<or> sub = ''storage''
      then (case (threshold_warning opts, threshold_critical opts) of
              (Some warning, Some critical) \<Rightarrow>
                (case request_output of
                   NodeStatus ns \<Rightarrow>
                     if sub = ''cpu'' then finish (check_cpu warning critical ns) []
                     else if sub = ''memory'' then finish (check_memory warning critical ns sub) []
                     else if sub = ''swap'' then finish (check_swap warning critical ns sub) []
                     else Raise TypeError
                 | DisksList l \<Rightarrow>
                     if sub = ''disks_health''
                     then check_exitcodes (check_disks_health warning critical l [])
                     else Raise TypeError
                 | StorageList l \<Rightarrow>
                     if sub = ''storage''
                     then check_exitcodes (check_storage opts warning critical l [])
                     else Raise TypeError
                 | _ \<Rightarrow> Raise TypeError)
            | _ \<Rightarrow> Raise TypeError)
      else if sub \<in> set choices then Unmodelled
      else Raise AttributeError)"

text \<open>
  The whole run, \<^verbatim>\<open>CheckPVE()\<close> followed by \<^verbatim>\<open>main()\<close>: the URLs requested, in order,
  and how the run ended. The constructor parses the arguments first and, with a password,
  fetches the ticket.
\<close>

definition program :: "(http_method \<Rightarrow> string \<Rightarrow> response) \<Rightarrow> options \<Rightarrow> string list \<times> outcome" where
  "program net opts =
     (case parse_args opts of
        Some out \<Rightarrow> ([], out)
      | None \<Rightarrow>
         (let ticket_phase =
                (case api_password opts of
                   None \<Rightarrow> ([], None)
                 | Some pw \<Rightarrow>
                    (let url = get_url opts ''access/ticket''
                     in case request net url POST of
                          Inl out \<Rightarrow> ([url], Some out)
                        | Inr (Ticket t) \<Rightarrow> ([url], None)
                        | Inr _ \<Rightarrow> ([url], Some (Raise KeyError))))
          in case snd ticket_phase of
               Some out \<Rightarrow> (fst ticket_phase, out)
             | None \<Rightarrow>
                (let api_url = get_url opts (subcommand opts)
                 in case request net api_url GET of
                      Inl out \<Rightarrow> (fst ticket_phase @ [api_url], out)
                    | Inr request_output \<Rightarrow> (fst ticket_phase @ [api_url], main opts request_output))))"

subsection \<open>Notions used in the statements\<close>


text \<open>The service rule as the specification words it: not running and not active and found.\<close>

definition spec_service_warns :: "service \<Rightarrow> bool" where
  "spec_service_warns element =
     (service_state element \<noteq> ''running'' \<and> service_active_state element \<noteq> ''active'' \<and>
      service_unit_state element \<noteq> ''not-found'')"

text \<open>A disk that takes the last branch of the loop body of \<^verbatim>\<open>check_disks_health\<close>.\<close>

definition disk_passes :: "int \<Rightarrow> int \<Rightarrow> disk \<Rightarrow> bool" where
  "disk_passes warning critical d =
     ((disk_health d = ''OK'' \<or> disk_health d = ''PASSED'' \<or> disk_health d = ''UNKNOWN'') \<and>
      (case disk_wearout d of
         WearoutInt wo \<Rightarrow> \<not> (wo \<le> warning \<and> critical \<le> wo) \<and> \<not> wo \<le> critical
       | WearoutStr s \<Rightarrow> True))"

subsection \<open>Concrete inputs\<close>

text \<open>Options used to run the theorems on concrete inputs.\<close>

definition storage_opts :: "string list \<Rightarrow> string list \<Rightarrow> options" where
  "storage_opts ignored included =
     \<lparr>api_host = ''pve.mydomain.com'', api_port = 8006, api_user = ''monitoring@pve'',
      api_password = None, api_token = Some ''t=1'', subcommand = ''storage'',
      nodename = ''pve1'', ignore_disks = ignored, include_disks = included,
      threshold_warning = Some 70, threshold_critical = Some 80\<rparr>"

definition threshold_opts :: "string \<Rightarrow> int \<Rightarrow> int \<Rightarrow> options" where
  "threshold_opts sub warning critical =
     \<lparr>api_host = ''pve.mydomain.com'', api_port = 8006, api_user = ''monitoring@pve'',
      api_password = Some ''mypassword'', api_token = None, subcommand = sub,
      nodename = ''pve1'', ignore_disks = [], include_disks = [],
      threshold_warning = Some warning, threshold_critical = Some critical\<rparr>"

section \<open>Properties\<close>

subsection \<open>Decimal text of integers\<close>

lemma str_nat_small: "n < 10 \<Longrightarrow> str_nat n = [digit_char n]"
  by (subst str_nat.simps) simp

lemma str_nat_big: "10 \<le> n \<Longrightarrow> str_nat n = str_nat (n div 10) @ [digit_char (n mod 10)]"
  by (subst str_nat.simps) simp

lemma str_nat_nonempty: "str_nat n \<noteq> []"
  by (subst str_nat.simps) simp

lemma str_nat_length_le: "0 < k \<Longrightarrow> (length (str_nat n) \<le> k) = (n < 10 ^ k)"
proof (induction n arbitrary: k rule: str_nat.induct)
  case (1 n)
  show ?case
  proof (cases "n < 10")
    case True
    have "(10::nat) ^ 1 \<le> 10 ^ k" using "1.prems" by (intro power_increasing) auto
    with True have "n < 10 ^ k" by simp
    moreover have "length (str_nat n) = 1" using True by (simp add: str_nat_small)
    ultimately show ?thesis using "1.prems" by simp
  next
    case False
    have len: "length (str_nat n) = Suc (length (str_nat (n div 10)))"
      using False by (simp add: str_nat_big)
    show ?thesis
    proof (cases k)
      case 0
      with "1.prems" show ?thesis by simp
    next
      case (Suc j)
      show ?thesis
      proof (cases "j = 0")
        case True
        have "length (str_nat (n div 10)) \<noteq> 0" using str_nat_nonempty by simp
        with True Suc len False show ?thesis by simp
      next
        case jpos: False
        then have "(length (str_nat (n div 10)) \<le> j) = (n div 10 < 10 ^ j)"
          using "1.IH"[OF False, of j] by simp
        moreover have "(n div 10 < 10 ^ j) = (n < 10 ^ Suc j)"
          by (simp add: div_less_iff_less_mult mult.commute)
        ultimately show ?thesis using Suc len by simp
      qed
    qed
  qed
qed

lemma str_int_length_le:
  assumes "0 \<le> n" and "0 < k"
  shows "(length (str_int n) \<le> k) = (n < 10 ^ k)"
proof -
  have "(length (str_int n) \<le> k) = (nat n < 10 ^ k)"
    using assms str_nat_length_le[of k "nat n"] by (simp add: str_int_def)
  also have "\<dots> = (int (nat n) < int (10 ^ k))"
    by (simp only: of_nat_less_iff)
  also have "\<dots> = (n < 10 ^ k)"
    using assms by simp
  finally show ?thesis .
qed

lemma str_int_digit_count:
  assumes "0 \<le> n"
  shows "n < 10 ^ length (str_int n)" and "0 < n \<Longrightarrow> 10 ^ (length (str_int n) - 1) \<le> n"
proof -
  have pos: "0 < length (str_int n)"
    using assms str_nat_nonempty by (simp add: str_int_def)
  show "n < 10 ^ length (str_int n)"
    using str_int_length_le[OF assms pos] by simp
  show "10 ^ (length (str_int n) - 1) \<le> n" if "0 < n"
  proof (cases "length (str_int n) - 1 = 0")
    case True
    with that show ?thesis by simp
  next
    case False
    then have "(length (str_int n) \<le> length (str_int n) - 1) = (n < 10 ^ (length (str_int n) - 1))"
      using str_int_length_le[OF assms, of "length (str_int n) - 1"] by simp
    moreover have "\<not> length (str_int n) \<le> length (str_int n) - 1"
      using pos by arith
    ultimately show ?thesis by simp
  qed
qed

subsection \<open>Unit normalizer\<close>

lemma check_UOM_cases:
  "check_UOM n =
     (if length (str_int n) < 10 then (py_round (of_int n / 1024 ^ 2) 2, ''MB'')
      else if length (str_int n) \<le> 12 then (py_round (of_int n / 1024 ^ 3) 2, ''GB'')
      else (py_round (of_int n / 1024 ^ 4) 2, ''TB''))"
  by (simp add: check_UOM_def Let_def)

lemma get_common_unit_cases:
  "get_common_unit u t =
     (if length (str_int t) < 10
      then (py_round (of_int u / 1024 ^ 2) 2, py_round (of_int t / 1024 ^ 2) 2, ''MB'')
      else if length (str_int t) \<le> 12
      then (py_round (of_int u / 1024 ^ 3) 2, py_round (of_int t / 1024 ^ 3) 2, ''GB'')
      else (py_round (of_int u / 1024 ^ 4) 2, py_round (of_int t / 1024 ^ 4) 2, ''TB''))"
  by (simp add: get_common_unit_def Let_def)

lemma length_str_int_8e9: "length (str_int 8000000000) = 10"
  by (simp add: str_int_def str_nat_big str_nat_small)

lemma length_str_int_1e10: "length (str_int 10000000000) = 11"
  by (simp add: str_int_def str_nat_big str_nat_small)

text \<open>
  C4. For a byte count \<open>n \<ge> 0\<close>, \<^verbatim>\<open>check_UOM\<close> picks the unit by the length of the decimal
  text of \<open>n\<close>: fewer than 10 digits give MB and \<open>round(n/1024^2, 2)\<close>, 10 to 12 digits give
  GB and \<open>round(n/1024^3, 2)\<close>, 13 or more give TB and \<open>round(n/1024^4, 2)\<close>. That length
  is the number of decimal digits: \<open>n < 10^length\<close>, and \<open>10^(length - 1) \<le> n\<close> for \<open>n > 0\<close>.
\<close>

theorem check_UOM_by_digit_count:
  assumes "0 \<le> n"
  shows "check_UOM n =
           (if length (str_int n) < 10 then (py_round (of_int n / 1024 ^ 2) 2, ''MB'')
            else if 10 \<le> length (str_int n) \<and> length (str_int n) \<le> 12
            then (py_round (of_int n / 1024 ^ 3) 2, ''GB'')
            else (py_round (of_int n / 1024 ^ 4) 2, ''TB'')) \<and>
         n < 10 ^ length (str_int n) \<and>
         (0 < n \<longrightarrow> 10 ^ (length (str_int n) - 1) \<le> n)"
  using str_int_digit_count[OF assms] by (simp add: check_UOM_cases)

theorem check_UOM_by_digit_count_witness:
  "(0::int) \<le> 8000000000 \<and> length (str_int 8000000000) = 10 \<and>
   check_UOM 8000000000 = (745 / 100, ''GB'')"
  using check_UOM_by_digit_count[of 8000000000]
  by (simp add: length_str_int_8e9 py_round_def round_half_even_def Let_def)

text \<open>
  C9. \<^verbatim>\<open>get_common_unit\<close> takes its divisor from the digit count of the total alone,
  divides used and total by that one divisor, rounds each to two decimals, and its total
  and unit are what \<^verbatim>\<open>check_UOM\<close> returns for the total.
\<close>

theorem get_common_unit_same_unit:
  "get_common_unit used_number total_number =
     (let divisor = (if length (str_int total_number) < 10 then 1024 ^ 2
                     else if length (str_int total_number) \<le> 12 then 1024 ^ 3
                     else 1024 ^ 4)
      in (py_round (of_int used_number / divisor) 2,
          py_round (of_int total_number / divisor) 2,
          snd (check_UOM total_number))) \<and>
   snd (get_common_unit used_number total_number) = check_UOM total_number"
  by (simp add: get_common_unit_cases check_UOM_cases Let_def)

theorem get_common_unit_same_unit_witness:
  "get_common_unit 8000000000 10000000000 = (745 / 100, 931 / 100, ''GB'') \<and>
   check_UOM 10000000000 = (931 / 100, ''GB'')"
  using get_common_unit_same_unit[of 8000000000 10000000000]
  by (simp add: length_str_int_1e10 check_UOM_cases py_round_def round_half_even_def Let_def)

subsection \<open>Substrings and the aggregator\<close>

lemma str_in_Nil: "str_in [] s"
  by (cases s) simp_all

lemma str_in_prefix: "str_in p (p @ s)"
proof (cases "p @ s")
  case Nil
  then show ?thesis by simp
next
  case (Cons ch rest)
  have "take (length p) (p @ s) = p" by simp
  then have "take (length p) (ch # rest) = p" by (simp only: Cons)
  then have "str_in p (ch # rest)" by simp
  then show ?thesis by (simp only: Cons)
qed

lemma str_in_left: "str_in (p @ q) s \<Longrightarrow> str_in p s"
proof (induction s)
  case Nil
  then show ?case by simp
next
  case (Cons ch rest)
  show ?case
  proof (cases "take (length (p @ q)) (ch # rest) = p @ q")
    case True
    then have "take (length p) (take (length (p @ q)) (ch # rest)) = take (length p) (p @ q)"
      by simp
    then have "take (length p) (ch # rest) = p"
      by (simp add: min_def)
    then show ?thesis by simp
  next
    case False
    with Cons show ?thesis by auto
  qed
qed

lemma check_exitcodes_filters:
  "check_exitcodes result_list =
     Exit (filter (str_in ''CRITICAL'') result_list @ filter (str_in ''WARNING'') result_list @
           filter (str_in ''OK -'') result_list)
          (if any_in ''CRITICAL'' result_list then 2
           else if any_in ''WARNING'' result_list then 1 else 0)"
proof -
  have "\<not> any_in p result_list \<Longrightarrow> filter (str_in p) result_list = []" for p
    by (induction result_list) (auto simp: any_in_def)
  then show ?thesis
    unfolding check_exitcodes_def re_search_def by auto
qed

text \<open>
  C1, as the code has it. The exit status is 2 when a finding contains \<^verbatim>\<open>CRITICAL\<close>,
  else 1 when one contains \<^verbatim>\<open>WARNING\<close>, else 0. The printed lines are the findings
  with \<^verbatim>\<open>CRITICAL\<close>, then those with \<^verbatim>\<open>WARNING\<close>, then those with \<^verbatim>\<open>OK -\<close>:
  the lower levels are printed after the winning one, not left out.
\<close>

theorem check_exitcodes_by_severity:
  "(any_in ''CRITICAL'' result_list \<longrightarrow>
      check_exitcodes result_list =
        Exit (filter (str_in ''CRITICAL'') result_list @ filter (str_in ''WARNING'') result_list @
              filter (str_in ''OK -'') result_list) 2) \<and>
   (\<not> any_in ''CRITICAL'' result_list \<and> any_in ''WARNING'' result_list \<longrightarrow>
      check_exitcodes result_list =
        Exit (filter (str_in ''WARNING'') result_list @ filter (str_in ''OK -'') result_list) 1) \<and>
   (\<not> any_in ''CRITICAL'' result_list \<and> \<not> any_in ''WARNING'' result_list \<longrightarrow>
      check_exitcodes result_list = Exit (filter (str_in ''OK -'') result_list) 0)"
proof -
  have "\<not> any_in p result_list \<Longrightarrow> filter (str_in p) result_list = []" for p
    by (induction result_list) (auto simp: any_in_def)
  then show ?thesis
    by (auto simp: check_exitcodes_filters)
qed

theorem check_exitcodes_by_severity_witness:
  "check_exitcodes [''CRITICAL - a'', ''OK - b''] = Exit [''CRITICAL - a'', ''OK - b''] 2 \<and>
   check_exitcodes [''OK - b'', ''WARNING - c''] = Exit [''WARNING - c'', ''OK - b''] 1 \<and>
   check_exitcodes [''OK - b''] = Exit [''OK - b''] 0"
  using check_exitcodes_by_severity[of "[''CRITICAL - a'', ''OK - b'']"]
        check_exitcodes_by_severity[of "[''OK - b'', ''WARNING - c'']"]
        check_exitcodes_by_severity[of "[''OK - b'']"]
  by (simp add: any_in_def)

text \<open>
  C1 as stated fails: with a CRITICAL finding present the WARNING and OK findings are
  printed as well.
\<close>

theorem check_exitcodes_prints_all_levels:
  "check_exitcodes [''CRITICAL - a'', ''WARNING - b'', ''OK - c''] =
     Exit [''CRITICAL - a'', ''WARNING - b'', ''OK - c''] 2"
  by (simp add: check_exitcodes_def any_in_def re_search_def)

subsection \<open>Storage filters\<close>

lemma storage_step_include:
  "include_disks opts \<noteq> [] \<Longrightarrow>
   storage_step opts warning critical result_list st =
     (if storage_name st \<in> set (include_disks opts)
      then check_storage_inside warning critical st result_list else result_list)"
  by (simp add: storage_step_def)

lemma storage_step_filtered:
  assumes "storage_enabled st \<noteq> 1 \<or>
           (if 0 < length (include_disks opts) then storage_name st \<notin> set (include_disks opts)
            else storage_name st \<in> set (ignore_disks opts))"
  shows "storage_step opts warning critical result_list st = result_list"
  using assms by (auto simp: storage_step_def check_storage_inside_def Let_def split: if_splits)

lemma check_storage_all_filtered:
  assumes "\<forall>st \<in> set l. storage_enabled st \<noteq> 1 \<or>
           (if 0 < length (include_disks opts) then storage_name st \<notin> set (include_disks opts)
            else storage_name st \<in> set (ignore_disks opts))"
  shows "check_storage opts warning critical l result_list = result_list"
  using assms unfolding check_storage_def
proof (induction l arbitrary: result_list)
  case Nil
  then show ?case by simp
next
  case (Cons st l)
  then have "storage_step opts warning critical result_list st = result_list"
    by (intro storage_step_filtered) simp
  with Cons show ?case by simp
qed

lemma check_exitcodes_Nil: "check_exitcodes [] = Exit [] 0"
  by (simp add: check_exitcodes_def any_in_def)

lemma main_storage:
  assumes "subcommand opts = ''storage''"
    and "threshold_warning opts = Some warning" and "threshold_critical opts = Some critical"
  shows "main opts (StorageList l) = check_exitcodes (check_storage opts warning critical l [])"
  using assms by (simp add: main_def Let_def)

text \<open>
  C10. A run whose finding list is empty prints nothing and leaves with status 0: that is
  what \<^verbatim>\<open>check_exitcodes\<close> does on the empty list, and a storage run in which every entry
  is disabled, ignored, or not in a non-empty include list produces the empty list.
\<close>

theorem empty_result_list_exits_ok:
  assumes "subcommand opts = ''storage''"
    and "threshold_warning opts = Some warning" and "threshold_critical opts = Some critical"
    and "\<forall>st \<in> set l. storage_enabled st \<noteq> 1 \<or>
           (if 0 < length (include_disks opts) then storage_name st \<notin> set (include_disks opts)
            else storage_name st \<in> set (ignore_disks opts))"
  shows "check_exitcodes [] = Exit [] 0 \<and>
         check_storage opts warning critical l [] = [] \<and>
         main opts (StorageList l) = Exit [] 0"
  using check_storage_all_filtered[OF assms(4), of warning critical "[]"]
  by (simp add: main_storage[OF assms(1,2,3)] check_exitcodes_Nil)

theorem empty_result_list_exits_ok_witness:
  "main (storage_opts [''vm-backup''] [])
     (StorageList
        [\<lparr>storage_name = ''vm-backup'', storage_enabled = 1, storage_active = 1,
          storage_type = ''nfs'', storage_used_byte = 9000000000, storage_total_byte = 10000000000\<rparr>,
         \<lparr>storage_name = ''old'', storage_enabled = 0, storage_active = 0,
          storage_type = ''dir'', storage_used_byte = 0, storage_total_byte = 0\<rparr>]) = Exit [] 0"
  using empty_result_list_exits_ok[of "storage_opts [''vm-backup''] []" 70 80
          "[\<lparr>storage_name = ''vm-backup'', storage_enabled = 1, storage_active = 1,
             storage_type = ''nfs'', storage_used_byte = 9000000000, storage_total_byte = 10000000000\<rparr>,
            \<lparr>storage_name = ''old'', storage_enabled = 0, storage_active = 0,
             storage_type = ''dir'', storage_used_byte = 0, storage_total_byte = 0\<rparr>]"]
  by (simp add: storage_opts_def)

text \<open>
  C8. With a non-empty include list the ignore list has no effect on a storage run: the
  result list, and with it the printed lines and the exit status, are the same for any two
  ignore lists. Each entry's name is tested against the include list alone.
\<close>

theorem include_list_overrides_ignore_list:
  assumes "include_disks opts \<noteq> []"
  shows "check_storage (opts\<lparr>ignore_disks := ignored1\<rparr>) warning critical l result_list =
           check_storage (opts\<lparr>ignore_disks := ignored2\<rparr>) warning critical l result_list \<and>
         main (opts\<lparr>ignore_disks := ignored1\<rparr>) (StorageList l) =
           main (opts\<lparr>ignore_disks := ignored2\<rparr>) (StorageList l) \<and>
         storage_step opts warning critical result_list st =
           (if storage_name st \<in> set (include_disks opts)
            then check_storage_inside warning critical st result_list else result_list)"
proof -
  have step: "storage_step (opts\<lparr>ignore_disks := ignored1\<rparr>) w c =
              storage_step (opts\<lparr>ignore_disks := ignored2\<rparr>) w c" for w c
    using assms by (intro ext) (simp add: storage_step_def)
  then have cs: "check_storage (opts\<lparr>ignore_disks := ignored1\<rparr>) w c l rl =
                 check_storage (opts\<lparr>ignore_disks := ignored2\<rparr>) w c l rl" for w c rl
    by (simp add: check_storage_def)
  have "main (opts\<lparr>ignore_disks := ignored1\<rparr>) (StorageList l) =
        main (opts\<lparr>ignore_disks := ignored2\<rparr>) (StorageList l)"
    by (simp add: main_def Let_def cs split: option.splits)
  with cs storage_step_include[OF assms] show ?thesis by simp
qed

theorem include_list_overrides_ignore_list_witness:
  "include_disks (storage_opts [] [''local'']) \<noteq> [] \<and>
   main (storage_opts [''local''] [''local''])
     (StorageList
        [\<lparr>storage_name = ''local'', storage_enabled = 1, storage_active = 1,
          storage_type = ''dir'', storage_used_byte = 8000000000, storage_total_byte = 10000000000\<rparr>]) =
   main (storage_opts [] [''local''])
     (StorageList
        [\<lparr>storage_name = ''local'', storage_enabled = 1, storage_active = 1,
          storage_type = ''dir'', storage_used_byte = 8000000000, storage_total_byte = 10000000000\<rparr>])"
  using include_list_overrides_ignore_list[of "storage_opts [] [''local'']" "[''local'']" 70 80
          "[\<lparr>storage_name = ''local'', storage_enabled = 1, storage_active = 1,
             storage_type = ''dir'', storage_used_byte = 8000000000, storage_total_byte = 10000000000\<rparr>]"
          "[]" "[]"]
  by (simp add: storage_opts_def)

subsection \<open>Threshold validation\<close>

text \<open>
  C7. With both thresholds given, a run of cpu, memory, storage or swap whose warning
  threshold is not below the critical one, and a run of disks_health whose critical
  threshold is not below the warning one, end in the parser's error before any request:
  the list of requested URLs is empty.
\<close>

theorem invalid_thresholds_rejected_before_request:
  assumes "threshold_warning opts = Some warning" and "threshold_critical opts = Some critical"
  shows "(subcommand opts \<in> {''cpu'', ''memory'', ''storage'', ''swap''} \<and> critical \<le> warning \<longrightarrow>
            program net opts =
              ([], ParserError (''--warning threshold must be lower then --critical threshold for '' @
                                [CHR 0x27] @ subcommand opts @ [CHR 0x27] @ '' subcommand!''))) \<and>
         (subcommand opts = ''disks_health'' \<and> warning \<le> critical \<longrightarrow>
            program net opts =
              ([], ParserError (''--warning threshold must be higher then --critical threshold for '' @
                                [CHR 0x27] @ subcommand opts @ [CHR 0x27] @ '' subcommand!'')))"
  using assms
  by (auto simp: program_def parse_args_def check_thresholds_scale_def choices_def)

theorem invalid_thresholds_rejected_before_request_witness:
  "program (\<lambda>m u. ConnectionError) (threshold_opts ''cpu'' 85 85) =
     ([], ParserError ''--warning threshold must be lower then --critical threshold for 'cpu' subcommand!'') \<and>
   program (\<lambda>m u. ConnectionError) (threshold_opts ''disks_health'' 10 10) =
     ([], ParserError ''--warning threshold must be higher then --critical threshold for 'disks_health' subcommand!'')"
  using invalid_thresholds_rejected_before_request[of "threshold_opts ''cpu'' 85 85" 85 85 "\<lambda>m u. ConnectionError"]
        invalid_thresholds_rejected_before_request[of "threshold_opts ''disks_health'' 10 10" 10 10 "\<lambda>m u. ConnectionError"]
  by (simp add: threshold_opts_def)

subsection \<open>The one-line evaluators\<close>












subsection \<open>Services\<close>

lemma ok_services_line_no_warning:
  "\<not> str_in ''WARNING'' ''OK - All services are running.''"
  "\<not> str_in ''WARNING -'' ''OK - All services are running.''"
  by simp_all

lemma service_warning_line_matches:
  "str_in ''WARNING -'' (service_warning_line element)"
  "str_in ''WARNING'' (service_warning_line element)"
proof -
  have "service_warning_line element =
          ''WARNING -'' @ ('' '' @ service_desc element @ '' ('' @ service_name element @
          '') is '' @ service_state element @ ''.'')"
    by (simp add: service_warning_line_def)
  then show a: "str_in ''WARNING -'' (service_warning_line element)"
    by (simp only: str_in_prefix)
  show "str_in ''WARNING'' (service_warning_line element)"
    using a str_in_left[of "''WARNING''" "'' -''" "service_warning_line element"] by simp
qed

lemma services_step_after_warning:
  assumes "result_list \<noteq> []" and "\<forall>x \<in> set result_list. str_in ''WARNING -'' x"
  shows "services_step result_list element =
           (if service_warns element then result_list @ [service_warning_line element]
            else result_list)"
proof -
  have w: "\<forall>x \<in> set result_list. str_in ''WARNING'' x"
    using assms(2) str_in_left[of "''WARNING''" "'' -''"] by auto
  then have any: "any_in ''WARNING'' result_list"
    using assms(1) by (cases result_list) (auto simp: any_in_def)
  have keep: "filter (re_search ''WARNING -'') result_list = result_list"
    using assms(2) by (simp add: re_search_def)
  show ?thesis
    using any keep service_warning_line_matches[of element]
    by (simp add: services_step_def Let_def any_in_def re_search_def)
qed

lemma services_loop_after_warning:
  assumes "result_list \<noteq> []" and "\<forall>x \<in> set result_list. str_in ''WARNING -'' x"
  shows "foldl services_step result_list l =
           result_list @ map service_warning_line (filter service_warns l)"
  using assms
proof (induction l arbitrary: result_list)
  case Nil
  then show ?case by simp
next
  case (Cons element l)
  show ?case
  proof (cases "service_warns element")
    case True
    have "foldl services_step (result_list @ [service_warning_line element]) l =
            (result_list @ [service_warning_line element]) @
            map service_warning_line (filter service_warns l)"
      using Cons.prems service_warning_line_matches(1)[of element]
      by (intro Cons.IH) auto
    then show ?thesis
      using True services_step_after_warning[OF Cons.prems, of element] by simp
  next
    case False
    then show ?thesis
      using Cons.IH[OF Cons.prems] services_step_after_warning[OF Cons.prems, of element] by simp
  qed
qed

lemma services_step_ok_baseline:
  "services_step (replicate k ''OK - All services are running.'') element =
     (if service_warns element then [service_warning_line element]
      else replicate (Suc k) ''OK - All services are running.'')"
proof -
  have none: "\<not> any_in ''WARNING'' (replicate k ''OK - All services are running.'')"
    using ok_services_line_no_warning(1) by (simp add: any_in_def list_ex_iff)
  have drop: "filter (re_search ''WARNING -'') (replicate k ''OK - All services are running.'') = []"
    using ok_services_line_no_warning(2) by (simp add: re_search_def)
  have none': "\<not> any_in ''WARNING'' (replicate k ''OK - All services are running.'' @
                  [''OK - All services are running.''])"
    using none ok_services_line_no_warning(1) by (simp add: any_in_def)
  show ?thesis
  proof (cases "service_warns element")
    case True
    then show ?thesis
      using drop service_warning_line_matches[of element]
      by (simp add: services_step_def Let_def any_in_def re_search_def)
  next
    case False
    then show ?thesis
      using none none' by (simp add: services_step_def Let_def replicate_append_same)
  qed
qed

lemma services_loop_ok_baseline:
  "foldl services_step (replicate k ''OK - All services are running.'') l =
     (if \<exists>element \<in> set l. service_warns element
      then map service_warning_line (filter service_warns l)
      else replicate (k + length l) ''OK - All services are running.'')"
proof (induction l arbitrary: k)
  case Nil
  then show ?case by simp
next
  case (Cons element l)
  show ?case
  proof (cases "service_warns element")
    case True
    have "foldl services_step [service_warning_line element] l =
            [service_warning_line element] @ map service_warning_line (filter service_warns l)"
      using service_warning_line_matches(1)[of element]
      by (intro services_loop_after_warning) auto
    then show ?thesis
      using True by (simp add: services_step_ok_baseline)
  next
    case False
    then show ?thesis
      using Cons.IH[of "Suc k"] by (simp add: services_step_ok_baseline)
  qed
qed

text \<open>
  C2, as the code has it. A service is reported when it is not running or not active, and
  its unit state is not \<^verbatim>\<open>not-found\<close>. The finding set of a services run is the WARNING
  lines of the reported services when there is one, and otherwise the single OK line (no
  line at all for an empty payload).
\<close>

theorem check_services_findings:
  "set (check_services request_output []) =
     (if \<exists>element \<in> set request_output. service_warns element
      then set (map service_warning_line (filter service_warns request_output))
      else if request_output = [] then {}
      else {''OK - All services are running.''}) \<and>
   service_warns element =
     ((service_state element \<noteq> ''running'' \<or> service_active_state element \<noteq> ''active'') \<and>
      service_unit_state element \<noteq> ''not-found'')"
proof -
  have "foldl services_step [] request_output =
          (if \<exists>element \<in> set request_output. service_warns element
           then map service_warning_line (filter service_warns request_output)
           else replicate (length request_output) ''OK - All services are running.'')"
    using services_loop_ok_baseline[of 0 request_output] by simp
  then show ?thesis
    by (auto simp: check_services_def service_warns_def)
qed

theorem check_services_findings_witness:
  "set (check_services
          [\<lparr>service_name = ''pveproxy'', service_desc = ''PVE API Proxy Server'',
            service_unit_state = ''enabled'', service_state = ''running'',
            service_active_state = ''active''\<rparr>,
           \<lparr>service_name = ''corosync'', service_desc = ''Corosync Cluster Engine'',
            service_unit_state = ''enabled'', service_state = ''dead'',
            service_active_state = ''inactive''\<rparr>] []) =
     {''WARNING - Corosync Cluster Engine (corosync) is dead.''}"
proof -
  have a: "\<not> service_warns
             \<lparr>service_name = ''pveproxy'', service_desc = ''PVE API Proxy Server'',
              service_unit_state = ''enabled'', service_state = ''running'',
              service_active_state = ''active''\<rparr>"
    by (simp add: service_warns_def)
  have b: "service_warns
             \<lparr>service_name = ''corosync'', service_desc = ''Corosync Cluster Engine'',
              service_unit_state = ''enabled'', service_state = ''dead'',
              service_active_state = ''inactive''\<rparr>"
    by (simp add: service_warns_def)
  have c: "service_warning_line
             \<lparr>service_name = ''corosync'', service_desc = ''Corosync Cluster Engine'',
              service_unit_state = ''enabled'', service_state = ''dead'',
              service_active_state = ''inactive''\<rparr> =
           ''WARNING - Corosync Cluster Engine (corosync) is dead.''"
    by (simp add: service_warning_line_def)
  show ?thesis
    using check_services_findings[of
          "[\<lparr>service_name = ''pveproxy'', service_desc = ''PVE API Proxy Server'',
             service_unit_state = ''enabled'', service_state = ''running'',
             service_active_state = ''active''\<rparr>,
            \<lparr>service_name = ''corosync'', service_desc = ''Corosync Cluster Engine'',
             service_unit_state = ''enabled'', service_state = ''dead'',
             service_active_state = ''inactive''\<rparr>]"]
    by (simp only: a b c set_simps list.map filter.simps if_True if_False bex_simps
          insert_iff empty_iff simp_thms list.set)
qed

text \<open>
  C2 as stated fails: a service that is active but not running is reported, although it is
  not both not running and not active.
\<close>

theorem check_services_warns_on_either:
  "\<not> spec_service_warns
        \<lparr>service_name = ''pve-guests'', service_desc = ''PVE guests'',
         service_unit_state = ''enabled'', service_state = ''exited'',
         service_active_state = ''active''\<rparr> \<and>
   main (threshold_opts ''services'' 0 0)
     (ServicesList
        [\<lparr>service_name = ''pve-guests'', service_desc = ''PVE guests'',
          service_unit_state = ''enabled'', service_state = ''exited'',
          service_active_state = ''active''\<rparr>]) =
     Exit [''WARNING - PVE guests (pve-guests) is exited.''] 1"
  by (simp add: spec_service_warns_def main_def threshold_opts_def Let_def check_services_def
        services_step_def service_warns_def service_warning_line_def any_in_def re_search_def
        check_exitcodes_def)

subsection \<open>Disk health\<close>

text \<open>
  C3 fails on the code. A disk whose health is \<^verbatim>\<open>FAILED\<close> appends its WARNING line, and
  the filter that follows keeps only lines matching both \<^verbatim>\<open>WARNING -\<close> and
  \<^verbatim>\<open>CRITICAL -\<close>, which drops it: the run with that one disk prints nothing and leaves
  with status 0, and with a healthy disk after it the run prints the OK line.
\<close>

theorem check_disks_health_drops_warning:
  "main (threshold_opts ''disks_health'' 20 10)
     (DisksList
        [\<lparr>disk_vendor = ''ATA     '', disk_model = ''Samsung_SSD_860'', disk_type = ''ssd'',
          disk_devpath = ''/dev/sda'', disk_health = ''FAILED'', disk_wearout = WearoutStr ''N/A''\<rparr>]) =
     Exit [] 0 \<and>
   main (threshold_opts ''disks_health'' 20 10)
     (DisksList
        [\<lparr>disk_vendor = ''ATA     '', disk_model = ''Samsung_SSD_860'', disk_type = ''ssd'',
          disk_devpath = ''/dev/sda'', disk_health = ''FAILED'', disk_wearout = WearoutStr ''N/A''\<rparr>,
         \<lparr>disk_vendor = ''ATA     '', disk_model = ''Samsung_SSD_860'', disk_type = ''ssd'',
          disk_devpath = ''/dev/sdb'', disk_health = ''PASSED'', disk_wearout = WearoutInt 99\<rparr>]) =
     Exit [''OK - All disks are healthy.''] 0"
  by (simp add: main_def threshold_opts_def Let_def check_disks_health_def disks_health_step_def
        strip_def is_space_def any_in_def re_search_def check_exitcodes_def)

text \<open>The other half of C3 holds: a run over healthy disks prints the one OK line.\<close>

lemma ok_disks_line_matches:
  "\<not> str_in ''WARNING'' ''OK - All disks are healthy.''"
  "\<not> str_in ''CRITICAL'' ''OK - All disks are healthy.''"
  "str_in ''OK -'' ''OK - All disks are healthy.''"
  by simp_all

lemma disks_health_step_ok_baseline:
  assumes "disk_passes warning critical d"
  shows "disks_health_step warning critical (replicate k ''OK - All disks are healthy.'') d =
           replicate (Suc k) ''OK - All disks are healthy.''"
proof -
  have none: "\<not> any_in ''WARNING'' (replicate k ''OK - All disks are healthy.'')"
    using ok_disks_line_matches(1) by (simp add: any_in_def list_ex_iff)
  have none': "\<not> any_in ''WARNING'' (replicate k ''OK - All disks are healthy.'' @
                  [''OK - All disks are healthy.''])"
    using none ok_disks_line_matches(1) by (simp add: any_in_def)
  have step: "disks_health_step warning critical (replicate k ''OK - All disks are healthy.'') d =
                replicate (Suc k) ''OK - All disks are healthy.''"
    if "disk_health d = h" and "h = ''OK'' \<or> h = ''PASSED'' \<or> h = ''UNKNOWN''" for h
  proof (cases "disk_wearout d")
    case (WearoutInt wo)
    then have "\<not> (wo \<le> warning \<and> wo \<ge> critical)" and "\<not> wo \<le> critical"
      using assms by (auto simp: disk_passes_def)
    then show ?thesis
      using that none none' WearoutInt
      by (auto simp: disks_health_step_def Let_def replicate_append_same)
  next
    case (WearoutStr s)
    then show ?thesis
      using that none none'
      by (auto simp: disks_health_step_def Let_def replicate_append_same)
  qed
  show ?thesis
    using assms step[of "disk_health d"] by (simp add: disk_passes_def)
qed

lemma remdups_replicate_Suc: "remdups (replicate (Suc n) x) = [x]"
  by (induction n) simp_all

lemma disks_health_loop_ok_baseline:
  assumes "\<forall>d \<in> set l. disk_passes warning critical d"
  shows "foldl (disks_health_step warning critical) (replicate k ''OK - All disks are healthy.'') l =
           replicate (k + length l) ''OK - All disks are healthy.''"
  using assms
proof (induction l arbitrary: k)
  case Nil
  then show ?case by simp
next
  case (Cons d l)
  then show ?case
    using Cons.IH[of "Suc k"] by (simp add: disks_health_step_ok_baseline)
qed

lemma check_disks_health_all_healthy:
  assumes "l \<noteq> []" and "\<forall>d \<in> set l. disk_passes warning critical d"
  shows "check_exitcodes (check_disks_health warning critical l []) =
           Exit [''OK - All disks are healthy.''] 0"
proof -
  have "foldl (disks_health_step warning critical) [] l =
          replicate (length l) ''OK - All disks are healthy.''"
    using disks_health_loop_ok_baseline[OF assms(2), of 0] by simp
  then have "check_disks_health warning critical l [] = [''OK - All disks are healthy.'']"
    using assms(1) remdups_replicate_Suc[of "length l - 1" "''OK - All disks are healthy.''"]
    by (simp add: check_disks_health_def)
  then show ?thesis
    using ok_disks_line_matches by (simp add: check_exitcodes_def any_in_def re_search_def)
qed

end
